theory Spec2Isabelle
  imports Complex_Main
begin

section \<open>Go values: machine integers, errors, process termination\<close>

text \<open>
  Go's \<open>int\<close> is a 64-bit two's complement integer on the platforms the scripts target.
  Arithmetic wraps around silently and \<open>/\<close> truncates towards zero.
\<close>

definition wrap64 :: "int \<Rightarrow> int" where
  "wrap64 x = (x + 2 ^ 63) mod 2 ^ 64 - 2 ^ 63"

definition quo :: "int \<Rightarrow> int \<Rightarrow> int" where
  "quo a b = (if (a < 0) = (b < 0) then \<bar>a\<bar> div \<bar>b\<bar> else - (\<bar>a\<bar> div \<bar>b\<bar>))"

text \<open>
  A Go \<open>error\<close> value carries a message.  A run of a script ends in one of three ways:
  it returns from \<open>main\<close> (exit status 0), it calls \<open>log.Fatal(err)\<close>, which logs the
  error and exits with status 1 without running deferred calls, or the runtime panics
  (an index out of range, a negative slice length), which prints the panic and exits with
  status 2.
\<close>

datatype error = Error string

datatype abort = Fatal error | Panic

type_synonym 'a result = "abort + 'a"



section \<open>The splitter (\<open>splitData\<close>)\<close>

text \<open>
  The element counts of the two sets, from the number of rows of the dataframe:
  \<^verbatim>\<open>
  trainingNum := (4 * advertDF.Nrow()) / 5
  testNum := advertDF.Nrow() / 5
  if trainingNum+testNum < advertDF.Nrow() {
      trainingNum++
  }
  \<close>
\<close>

definition splitNums :: "int \<Rightarrow> int \<times> int" where
  "splitNums nrow =
     (let trainingNum = quo (wrap64 (4 * nrow)) 5;
          testNum = quo nrow 5
      in if wrap64 (trainingNum + testNum) < nrow
         then (wrap64 (trainingNum + 1), testNum)
         else (trainingNum, testNum))"

text \<open>\<open>make([]int, n)\<close> panics when \<open>n\<close> is negative and gives \<open>n\<close> zeros otherwise.\<close>

definition makeInts :: "int \<Rightarrow> int list result" where
  "makeInts n = (if n < 0 then Inl Panic else Inr (replicate (nat n) 0))"

text \<open>
  The two loops that fill the index slices.  A store outside the slice panics.
  \<^verbatim>\<open>
  for i := 0; i < trainingNum; i++ { trainingIdx[i] = i }
  for i := 0; i < testNum; i++ { testIdx[i] = trainingNum + i }
  \<close>
\<close>

function enumTraining :: "int \<Rightarrow> int \<Rightarrow> int list \<Rightarrow> int list result" where
  "enumTraining i trainingNum trainingIdx =
     (if i < trainingNum
      then (if 0 \<le> i \<and> nat i < length trainingIdx
            then enumTraining (i + 1) trainingNum (trainingIdx[nat i := i])
            else Inl Panic)
      else Inr trainingIdx)"
  by pat_completeness auto
termination
  by (relation "measure (\<lambda>(i, trainingNum, trainingIdx). nat (trainingNum - i))") auto

function enumTest :: "int \<Rightarrow> int \<Rightarrow> int \<Rightarrow> int list \<Rightarrow> int list result" where
  "enumTest i testNum trainingNum testIdx =
     (if i < testNum
      then (if 0 \<le> i \<and> nat i < length testIdx
            then enumTest (i + 1) testNum trainingNum (testIdx[nat i := wrap64 (trainingNum + i)])
            else Inl Panic)
      else Inr testIdx)"
  by pat_completeness auto
termination
  by (relation "measure (\<lambda>(i, testNum, trainingNum, testIdx). nat (testNum - i))") auto

declare enumTraining.simps [simp del] enumTest.simps [simp del]

text \<open>The index slices handed to \<open>Subset\<close>: training first, test second.\<close>

definition splitIdx :: "int \<Rightarrow> (int list \<times> int list) result" where
  "splitIdx nrow =
     (case splitNums nrow of (trainingNum, testNum) \<Rightarrow>
        (case makeInts trainingNum of Inl a \<Rightarrow> Inl a | Inr trainingIdx0 \<Rightarrow>
        (case makeInts testNum of Inl a \<Rightarrow> Inl a | Inr testIdx0 \<Rightarrow>
        (case enumTraining 0 trainingNum trainingIdx0 of Inl a \<Rightarrow> Inl a | Inr trainingIdx \<Rightarrow>
        (case enumTest 0 testNum trainingNum testIdx0 of Inl a \<Rightarrow> Inl a | Inr testIdx \<Rightarrow>
           Inr (trainingIdx, testIdx))))))"


section \<open>The libraries the scripts call\<close>

text \<open>
  The scripts are glue around the standard library (\<open>os\<close>, \<open>encoding/csv\<close>,
  \<open>strconv\<close>) and third-party packages (gota dataframes, gonum plots, the
  \<open>regression\<close> package).  Every call into them is a field of the environment: what
  the call returns is a parameter of the model, and nothing is assumed about it.  A call
  that returns a Go \<open>error\<close> is a field with an \<open>error\<close> alternative.  Floating-point
  numbers are idealised as reals.

  \<^item> \<open>Open path\<close>: \<open>os.Open\<close>, the opened file (its content) or an error;
  \<^item> \<open>Create path\<close>: \<open>os.Create\<close>, its error if any;
  \<^item> \<open>ReadAll n f\<close>: \<open>csv.Reader.ReadAll\<close> with \<open>FieldsPerRecord = n\<close>;
  \<^item> \<open>Read f\<close>: the (record, error) pairs that successive \<open>csv.Reader.Read\<close> calls
    return before \<open>io.EOF\<close>;
  \<^item> \<open>CsvWrite record\<close>, \<open>CsvFlush records\<close>: \<open>csv.Writer.Write\<close> and
    \<open>Flush\<close> followed by \<open>Error\<close>;
  \<^item> \<open>ParseFloat s\<close>, \<open>FormatFloat v prec\<close>: \<open>strconv.ParseFloat(s, 64)\<close> and
    \<open>strconv.FormatFloat(v, 'f', prec, 64)\<close>;
  \<^item> \<open>ReadCSV\<close>, \<open>Describe\<close>, \<open>Names\<close>, \<open>Nrow\<close>, \<open>ColFloat\<close>
    (\<open>df.Col(name).Float()\<close>), \<open>Subset\<close>, \<open>WriteCSV\<close>: the dataframe
    package; \<open>ReadCSV\<close> returns a dataframe and no error value;
  \<^item> \<open>NewHist values n\<close>, \<open>NewScatter pts\<close>, \<open>Save name\<close>: \<open>plotter.NewHist\<close>,
    \<open>plotter.NewScatter\<close> and \<open>plot.Save\<close>;
  \<^item> \<open>Run points\<close>: the \<open>regression.Regression\<close> value after \<open>Train\<close> on each
    point and \<open>Run\<close>; \<open>Formula\<close> and \<open>Predict\<close> read it;
  \<^item> \<open>Float64 k\<close>: the \<open>k\<close>-th draw from the generator seeded with the clock.
\<close>

record ('df, 'm) env =
  Open :: "string \<Rightarrow> error + string"
  Create :: "string \<Rightarrow> error option"
  ReadAll :: "nat \<Rightarrow> string \<Rightarrow> error + string list list"
  Read :: "string \<Rightarrow> (string list \<times> error option) list"
  CsvWrite :: "string list \<Rightarrow> error option"
  CsvFlush :: "string list list \<Rightarrow> error option"
  ParseFloat :: "string \<Rightarrow> error + real"
  FormatFloat :: "real \<Rightarrow> nat \<Rightarrow> string"
  ReadCSV :: "string \<Rightarrow> 'df"
  Describe :: "'df \<Rightarrow> 'df"
  Names :: "'df \<Rightarrow> string list"
  Nrow :: "'df \<Rightarrow> int"
  ColFloat :: "'df \<Rightarrow> string \<Rightarrow> real list"
  Subset :: "'df \<Rightarrow> int list \<Rightarrow> 'df"
  WriteCSV :: "'df \<Rightarrow> error option"
  NewHist :: "real list \<Rightarrow> nat \<Rightarrow> error option"
  NewScatter :: "(real \<times> real) list \<Rightarrow> error option"
  Save :: "string \<Rightarrow> error option"
  Run :: "(real \<times> real list) list \<Rightarrow> 'm"
  Formula :: "'m \<Rightarrow> string"
  Predict :: "'m \<Rightarrow> real list \<Rightarrow> error + real"
  Float64 :: "nat \<Rightarrow> real"

text \<open>\<open>if err != nil { log.Fatal(err) }\<close> after a call that returns a value and an error.\<close>

definition orFatal :: "error + 'a \<Rightarrow> 'a result" where
  "orFatal r = (case r of Inl e \<Rightarrow> Inl (Fatal e) | Inr v \<Rightarrow> Inr v)"

text \<open>Indexing a slice: out of range is a runtime panic.\<close>

definition elemAt :: "'a list \<Rightarrow> nat \<Rightarrow> 'a result" where
  "elemAt xs i = (if i < length xs then Inr (xs ! i) else Inl Panic)"

section \<open>The linear-regression script\<close>

definition dataset :: string where
  "dataset = ''../dataset/Advertising.csv''"

definition trainingDataSet :: string where
  "trainingDataSet = ''../dataset/training.csv''"

definition testDataSet :: string where
  "testDataSet = ''../dataset/test.csv''"

subsection \<open>\<open>dataProfiling\<close>\<close>




subsection \<open>\<open>chooseIndependentVariable\<close>\<close>




subsection \<open>\<open>splitData\<close>\<close>

text \<open>
  The loop that writes the two sets; \<open>setMap\<close> maps 0 to the training frame and 1 to the
  test frame.  The result lists the frames handed to \<open>WriteCSV\<close>, in order.
\<close>

fun writeSets :: "('df, 'm) env \<Rightarrow> (nat \<Rightarrow> 'df) \<Rightarrow> nat \<Rightarrow> string list \<Rightarrow> (string \<times> 'df) list result" where
  "writeSets E setMap idx [] = Inr []"
| "writeSets E setMap idx (setName # rest) =
     (case Create E setName of
        Some err \<Rightarrow> Inl (Fatal err)
      | None \<Rightarrow>
          (case WriteCSV E (setMap idx) of
             Some err \<Rightarrow> Inl (Fatal err)
           | None \<Rightarrow>
               (case writeSets E setMap (idx + 1) rest of
                  Inl a \<Rightarrow> Inl a
                | Inr written \<Rightarrow> Inr ((setName, setMap idx) # written))))"

text \<open>
  \<open>splitData\<close>, with the names of the input and the two output files as parameters (the
  logistic-regression script has the same function over other files).
\<close>

definition splitDataOn :: "('df, 'm) env \<Rightarrow> string \<Rightarrow> string list \<Rightarrow> (string \<times> 'df) list result" where
  "splitDataOn E input outputs =
     (case Open E input of
        Inl err \<Rightarrow> Inl (Fatal err)
      | Inr f \<Rightarrow>
          (let advertDF = ReadCSV E f
           in (case splitIdx (Nrow E advertDF) of
                 Inl a \<Rightarrow> Inl a
               | Inr (trainingIdx, testIdx) \<Rightarrow>
                   (let trainingDF = Subset E advertDF trainingIdx;
                        testDF = Subset E advertDF testIdx;
                        setMap = (\<lambda>k. if k = 0 then trainingDF else testDF)
                    in writeSets E setMap 0 outputs))))"

definition splitData :: "('df, 'm) env \<Rightarrow> (string \<times> 'df) list result" where
  "splitData E = splitDataOn E dataset [trainingDataSet, testDataSet]"

subsection \<open>\<open>train\<close>\<close>

text \<open>
  The body of the loop for a record after the header: the data point
  \<open>regression.DataPoint(yVal, []float64{tvVal})\<close>.
\<close>

definition trainPoint :: "('df, 'm) env \<Rightarrow> string list \<Rightarrow> (real \<times> real list) result" where
  "trainPoint E record =
     (case elemAt record 3 of
        Inl a \<Rightarrow> Inl a
      | Inr sales \<Rightarrow>
          (case ParseFloat E sales of
             Inl err \<Rightarrow> Inl (Fatal err)
           | Inr yVal \<Rightarrow>
               (case elemAt record 0 of
                  Inl a \<Rightarrow> Inl a
                | Inr tv \<Rightarrow>
                    (case ParseFloat E tv of
                       Inl err \<Rightarrow> Inl (Fatal err)
                     | Inr tvVal \<Rightarrow> Inr (yVal, [tvVal])))))"

text \<open>\<open>for i, record := range trainingData\<close>; \<open>points\<close> are the points added so far.\<close>

fun trainLoop :: "('df, 'm) env \<Rightarrow> nat \<Rightarrow> string list list \<Rightarrow> (real \<times> real list) list
    \<Rightarrow> (real \<times> real list) list result" where
  "trainLoop E i [] points = Inr points"
| "trainLoop E i (record # rest) points =
     (if i = 0 then trainLoop E (i + 1) rest points
      else
        (case trainPoint E record of
           Inl a \<Rightarrow> Inl a
         | Inr point \<Rightarrow> trainLoop E (i + 1) rest (points @ [point])))"

text \<open>\<open>train\<close> returns the fitted regression and the formula it printed.\<close>

definition train :: "('df, 'm) env \<Rightarrow> ('m \<times> string) result" where
  "train E =
     (case Open E trainingDataSet of
        Inl err \<Rightarrow> Inl (Fatal err)
      | Inr f \<Rightarrow>
          (case ReadAll E 4 f of
             Inl err \<Rightarrow> Inl (Fatal err)
           | Inr trainingData \<Rightarrow>
               (case trainLoop E 0 trainingData [] of
                  Inl a \<Rightarrow> Inl a
                | Inr points \<Rightarrow> (let r = Run E points in Inr (r, Formula E r)))))"

subsection \<open>\<open>test\<close>\<close>

text \<open>
  The body of the loop for a record after the header: the term added to \<open>mAE\<close>,
  \<open>math.Abs(yObserved-yPredicted) / float64(len(testData))\<close>.
\<close>

definition testTerm :: "('df, 'm) env \<Rightarrow> 'm \<Rightarrow> nat \<Rightarrow> string list \<Rightarrow> real result" where
  "testTerm E r len record =
     (case elemAt record 3 of
        Inl a \<Rightarrow> Inl a
      | Inr sales \<Rightarrow>
          (case ParseFloat E sales of
             Inl err \<Rightarrow> Inl (Fatal err)
           | Inr yObserved \<Rightarrow>
               (case elemAt record 0 of
                  Inl a \<Rightarrow> Inl a
                | Inr tv \<Rightarrow>
                    (case ParseFloat E tv of
                       Inl err \<Rightarrow> Inl (Fatal err)
                     | Inr tvVal \<Rightarrow>
                         (case Predict E r [tvVal] of
                            Inl err \<Rightarrow> Inl (Fatal err)
                          | Inr yPredicted \<Rightarrow> Inr (\<bar>yObserved - yPredicted\<bar> / real len))))))"

fun testLoop :: "('df, 'm) env \<Rightarrow> 'm \<Rightarrow> nat \<Rightarrow> nat \<Rightarrow> string list list \<Rightarrow> real \<Rightarrow> real result" where
  "testLoop E r len i [] mAE = Inr mAE"
| "testLoop E r len i (record # rest) mAE =
     (if i = 0 then testLoop E r len (i + 1) rest mAE
      else
        (case testTerm E r len record of
           Inl a \<Rightarrow> Inl a
         | Inr term \<Rightarrow> testLoop E r len (i + 1) rest (mAE + term)))"

text \<open>\<open>test\<close> returns the value it printed as \<open>MAE\<close>.\<close>

definition test :: "('df, 'm) env \<Rightarrow> 'm \<Rightarrow> real result" where
  "test E r =
     (case Open E testDataSet of
        Inl err \<Rightarrow> Inl (Fatal err)
      | Inr f \<Rightarrow>
          (case ReadAll E 4 f of
             Inl err \<Rightarrow> Inl (Fatal err)
           | Inr testData \<Rightarrow> testLoop E r (length testData) 0 testData 0))"

text \<open>
  The mean absolute error as the glossary defines it: the average of the absolute
  differences between observed and predicted values over the test examples.
\<close>

definition meanAbsoluteError :: "(real \<times> real) list \<Rightarrow> real" where
  "meanAbsoluteError examples =
     (\<Sum>(yObserved, yPredicted) \<leftarrow> examples. \<bar>yObserved - yPredicted\<bar>) / real (length examples)"


section \<open>The logistic-regression script\<close>



subsection \<open>Strings\<close>

text \<open>\<open>strings.Split(s, sep)\<close> for a separator of one byte: it always has a first part.\<close>

fun Split :: "string \<Rightarrow> char \<Rightarrow> string list" where
  "Split [] sep = [[]]"
| "Split (c # cs) sep =
     (if c = sep then [] # Split cs sep
      else (case Split cs sep of [] \<Rightarrow> [[c]] | part # parts \<Rightarrow> (c # part) # parts))"


subsection \<open>\<open>dataProfiling\<close>: the data cleaner\<close>




subsection \<open>\<open>savePlotPng\<close> and \<open>splitData\<close>\<close>



subsection \<open>\<open>logistic\<close> and \<open>logisticRegression\<close>\<close>

definition logistic :: "real \<Rightarrow> real" where
  "logistic x = 1 / (1 + exp (- x))"

text \<open>
  A dense matrix in row-major order.  \<open>mat64.NewDense(r, c, data)\<close> panics when the
  backing slice has another length than \<open>r * c\<close>; \<open>mat64.Row(nil, idx, m)\<close> panics when
  the row is out of range.
\<close>

record dense =
  nrows :: nat
  ncols :: nat
  mdata :: "real list"

definition NewDense :: "nat \<Rightarrow> nat \<Rightarrow> real list \<Rightarrow> dense result" where
  "NewDense r c mat =
     (if r * c \<noteq> length mat then Inl Panic else Inr \<lparr>nrows = r, ncols = c, mdata = mat\<rparr>)"

definition Row :: "nat \<Rightarrow> dense \<Rightarrow> real list result" where
  "Row idx m =
     (if idx < nrows m then Inr (take (ncols m) (drop (idx * ncols m) (mdata m))) else Inl Panic)"

text \<open>
  \<^verbatim>\<open>
  for j := 0; j < len(featureRow); j++ {
      weights[j] += learningRate * predError * pred * (1 - pred) * featureRow[j]
  }
  \<close>
\<close>

function updateWeights :: "real \<Rightarrow> real \<Rightarrow> real \<Rightarrow> real list \<Rightarrow> nat \<Rightarrow> real list
    \<Rightarrow> real list result" where
  "updateWeights learningRate predError pred featureRow j weights =
     (if j < length featureRow
      then (if j < length weights
            then updateWeights learningRate predError pred featureRow (j + 1)
                   (weights[j := weights ! j
                                  + learningRate * predError * pred * (1 - pred) * featureRow ! j])
            else Inl Panic)
      else Inr weights)"
  by pat_completeness auto
termination
  by (relation "measure (\<lambda>(learningRate, predError, pred, featureRow, j, weights).
        length featureRow - j)") auto

declare updateWeights.simps [simp del]

text \<open>
  \<open>for idx, label := range labels\<close>: the prediction for the row, the squared error summed
  up, and the update of the weights.
\<close>

fun labelsLoop :: "dense \<Rightarrow> real \<Rightarrow> nat \<Rightarrow> real list \<Rightarrow> real list \<Rightarrow> real
    \<Rightarrow> (real list \<times> real) result" where
  "labelsLoop features learningRate idx [] weights sumError = Inr (weights, sumError)"
| "labelsLoop features learningRate idx (label # rest) weights sumError =
     (case Row idx features of
        Inl a \<Rightarrow> Inl a
      | Inr featureRow \<Rightarrow>
          (case elemAt featureRow 0 of Inl a \<Rightarrow> Inl a | Inr f0 \<Rightarrow>
          (case elemAt weights 0 of Inl a \<Rightarrow> Inl a | Inr w0 \<Rightarrow>
          (case elemAt featureRow 1 of Inl a \<Rightarrow> Inl a | Inr f1 \<Rightarrow>
          (case elemAt weights 1 of Inl a \<Rightarrow> Inl a | Inr w1 \<Rightarrow>
             (let pred = logistic (f0 * w0 * f1 * w1);
                  predError = label - pred
              in (case updateWeights learningRate predError pred featureRow 0 weights of
                    Inl a \<Rightarrow> Inl a
                  | Inr weights' \<Rightarrow>
                      labelsLoop features learningRate (idx + 1) rest weights'
                        (sumError + predError ^ 2))))))))"

text \<open>\<open>for i := 0; i < numSteps; i++\<close>; the summed error of a step is dropped.\<close>

function stepsLoop :: "dense \<Rightarrow> real list \<Rightarrow> real \<Rightarrow> int \<Rightarrow> int \<Rightarrow> real list
    \<Rightarrow> real list result" where
  "stepsLoop features labels learningRate numSteps i weights =
     (if i < numSteps
      then (case labelsLoop features learningRate 0 labels weights 0 of
              Inl a \<Rightarrow> Inl a
            | Inr (weights', sumError) \<Rightarrow>
                stepsLoop features labels learningRate numSteps (i + 1) weights')
      else Inr weights)"
  by pat_completeness auto
termination
  by (relation "measure (\<lambda>(features, labels, learningRate, numSteps, i, weights).
        nat (numSteps - i))") auto

declare stepsLoop.simps [simp del]

definition logisticRegression :: "('df, 'm) env \<Rightarrow> dense \<Rightarrow> real list \<Rightarrow> int \<Rightarrow> real
    \<Rightarrow> real list result" where
  "logisticRegression E features labels numSteps learningRate =
     (let numWeights = ncols features;
          weights = map (Float64 E) [0 ..< numWeights]
      in stepsLoop features labels learningRate numSteps 0 weights)"

subsection \<open>\<open>train\<close>\<close>

definition store :: "'a list \<Rightarrow> nat \<Rightarrow> 'a \<Rightarrow> 'a list result" where
  "store xs i v = (if i < length xs then Inr (xs[i := v]) else Inl Panic)"

text \<open>
  \<open>for idx, record := range rawCSVData\<close>: the feature and the intercept go to
  \<open>featureData\<close> at \<open>featureIndex\<close>, the class goes to \<open>labels\<close> at \<open>idx\<close>.
\<close>

fun loadLoop :: "('df, 'm) env \<Rightarrow> nat \<Rightarrow> string list list \<Rightarrow> real list \<Rightarrow> real list \<Rightarrow> nat
    \<Rightarrow> (real list \<times> real list) result" where
  "loadLoop E idx [] featureData labels featureIndex = Inr (featureData, labels)"
| "loadLoop E idx (record # rest) featureData labels featureIndex =
     (if idx = 0 then loadLoop E (idx + 1) rest featureData labels featureIndex
      else
        (case elemAt record 0 of Inl a \<Rightarrow> Inl a | Inr score \<Rightarrow>
        (case ParseFloat E score of Inl err \<Rightarrow> Inl (Fatal err) | Inr featureVal \<Rightarrow>
        (case store featureData featureIndex featureVal of Inl a \<Rightarrow> Inl a | Inr featureData1 \<Rightarrow>
        (case store featureData1 (featureIndex + 1) 1.0 of Inl a \<Rightarrow> Inl a | Inr featureData2 \<Rightarrow>
        (case elemAt record 1 of Inl a \<Rightarrow> Inl a | Inr class \<Rightarrow>
        (case ParseFloat E class of Inl err \<Rightarrow> Inl (Fatal err) | Inr labelVal \<Rightarrow>
        (case store labels idx labelVal of Inl a \<Rightarrow> Inl a | Inr labels1 \<Rightarrow>
           loadLoop E (idx + 1) rest featureData2 labels1 (featureIndex + 2)))))))))"

text \<open>\<open>train\<close> returns the two weights it printed as \<open>m1\<close> and \<open>m2\<close>.\<close>

definition train_logistic :: "('df, 'm) env \<Rightarrow> (real \<times> real) result" where
  "train_logistic E =
     (case Open E ''../dataset/training.csv'' of
        Inl err \<Rightarrow> Inl (Fatal err)
      | Inr f \<Rightarrow>
          (case ReadAll E 2 f of
             Inl err \<Rightarrow> Inl (Fatal err)
           | Inr rawCSVData \<Rightarrow>
               (case loadLoop E 0 rawCSVData
                       (replicate (2 * length rawCSVData) 0) (replicate (length rawCSVData) 0) 0 of
                  Inl a \<Rightarrow> Inl a
                | Inr (featureData, labels) \<Rightarrow>
                    (case NewDense (length rawCSVData) 2 featureData of
                       Inl a \<Rightarrow> Inl a
                     | Inr features \<Rightarrow>
                         (case logisticRegression E features labels 100 0.3 of
                            Inl a \<Rightarrow> Inl a
                          | Inr weights \<Rightarrow>
                              (case elemAt weights 0 of Inl a \<Rightarrow> Inl a | Inr m1 \<Rightarrow>
                              (case elemAt weights 1 of Inl a \<Rightarrow> Inl a | Inr m2 \<Rightarrow>
                                 Inr (m1, m2))))))))"

subsection \<open>\<open>predict\<close> and \<open>test\<close>\<close>







section \<open>The classification programs\<close>

text \<open>
  The three programs are calls into the golearn library.  Go has two packages with a
  global random generator and a \<open>Seed\<close> function: \<open>math/rand\<close>, which the decision-tree
  program imports, and \<open>golang.org/x/exp/rand\<close>, which the random-forest program
  imports.  The state of a run holds both generators; what they hold when the program
  starts differs from run to run.  The library may draw from either, so its
  cross-validation takes the state of both.
\<close>

record 'g rngs =
  mathRand :: 'g
  expRand :: 'g

datatype classifier = NewID3DecisionTree real | NewRandomForest int int

record ('i, 'nb, 'cm, 'g) golearn =
  ParseCSVToInstances :: "string \<Rightarrow> bool \<Rightarrow> error + 'i"
  ParseCSVToTemplatedInstances :: "string \<Rightarrow> bool \<Rightarrow> 'i \<Rightarrow> error + 'i"
  MathSeed :: "int \<Rightarrow> 'g"
  ExpSeed :: "int \<Rightarrow> 'g"
  GenerateCrossFoldValidationConfusionMatrices ::
    "'i \<Rightarrow> classifier \<Rightarrow> int \<Rightarrow> 'g rngs \<Rightarrow> error + 'cm list"
  GetCrossValidatedMetric :: "'cm list \<Rightarrow> real \<times> real"
  BinaryConvert :: "'i \<Rightarrow> 'i"
  NBFit :: "'i \<Rightarrow> 'nb"
  NBPredict :: "'nb \<Rightarrow> 'i \<Rightarrow> error + 'i"
  GetConfusionMatrix :: "'i \<Rightarrow> 'i \<Rightarrow> error + 'cm"
  GetAccuracy :: "'cm \<Rightarrow> real"

text \<open>
  \<open>main\<close> of the decision-tree program: \<open>rand\<close> is \<open>math/rand\<close>.  It returns the mean
  and the doubled standard deviation it printed.
\<close>

definition main_decision_tree :: "('i, 'nb, 'cm, 'g) golearn \<Rightarrow> 'g rngs \<Rightarrow> (real \<times> real) result" where
  "main_decision_tree G w =
     (case ParseCSVToInstances G ''../dataset/iris.csv'' True of
        Inl err \<Rightarrow> Inl (Fatal err)
      | Inr irisData \<Rightarrow>
          (let w1 = w\<lparr>mathRand := MathSeed G 44111342\<rparr>;
               decisionTree = NewID3DecisionTree 0.6
           in (case GenerateCrossFoldValidationConfusionMatrices G irisData decisionTree 5 w1 of
                 Inl err \<Rightarrow> Inl (Fatal err)
               | Inr cv \<Rightarrow>
                   (case GetCrossValidatedMetric G cv of
                      (mean, variance) \<Rightarrow> Inr (mean, sqrt variance * 2)))))"

text \<open>\<open>main\<close> of the random-forest program: \<open>rand\<close> is \<open>golang.org/x/exp/rand\<close>.\<close>

definition main_random_forest :: "('i, 'nb, 'cm, 'g) golearn \<Rightarrow> 'g rngs \<Rightarrow> (real \<times> real) result" where
  "main_random_forest G w =
     (case ParseCSVToInstances G ''../dataset/iris.csv'' True of
        Inl err \<Rightarrow> Inl (Fatal err)
      | Inr irisData \<Rightarrow>
          (let w1 = w\<lparr>expRand := ExpSeed G 44111342\<rparr>;
               rf = NewRandomForest 10 2
           in (case GenerateCrossFoldValidationConfusionMatrices G irisData rf 5 w1 of
                 Inl err \<Rightarrow> Inl (Fatal err)
               | Inr cv \<Rightarrow>
                   (case GetCrossValidatedMetric G cv of
                      (mean, variance) \<Rightarrow> Inr (mean, sqrt variance * 2)))))"



section \<open>Notions the properties are stated with\<close>

text \<open>
  Running a fallible step over a list of records, in order, until the first one that
  aborts: what a loop over the records amounts to.
\<close>

fun collect :: "('a \<Rightarrow> 'b result) \<Rightarrow> 'a list \<Rightarrow> 'b list result" where
  "collect f [] = Inr []"
| "collect f (x # xs) =
     (case f x of
        Inl a \<Rightarrow> Inl a
      | Inr y \<Rightarrow> (case collect f xs of Inl a \<Rightarrow> Inl a | Inr ys \<Rightarrow> Inr (y # ys)))"



text \<open>
  A test record of the linear-regression script gives an example, the observed and the
  predicted value, when its fields parse and the prediction succeeds.
\<close>

definition testExample :: "('df, 'm) env \<Rightarrow> 'm \<Rightarrow> string list \<Rightarrow> (real \<times> real) result" where
  "testExample E r record =
     (case elemAt record 3 of
        Inl a \<Rightarrow> Inl a
      | Inr sales \<Rightarrow>
          (case ParseFloat E sales of
             Inl err \<Rightarrow> Inl (Fatal err)
           | Inr yObserved \<Rightarrow>
               (case elemAt record 0 of
                  Inl a \<Rightarrow> Inl a
                | Inr tv \<Rightarrow>
                    (case ParseFloat E tv of
                       Inl err \<Rightarrow> Inl (Fatal err)
                     | Inr tvVal \<Rightarrow>
                         (case Predict E r [tvVal] of
                            Inl err \<Rightarrow> Inl (Fatal err)
                          | Inr yPredicted \<Rightarrow> Inr (yObserved, yPredicted))))))"


text \<open>
  The update of the weights for one example as the trainer is described: each weight
  grows by \<open>learningRate * (label - prediction) * prediction * (1 - prediction) * feature\<close>,
  the prediction being the logistic function of the product of the features and weights.
  A step goes through the examples in order.
\<close>

definition gradientUpdate :: "real \<Rightarrow> real list \<Rightarrow> real list \<times> real \<Rightarrow> real list" where
  "gradientUpdate learningRate weights example =
     (case example of (features, label) \<Rightarrow>
        (let prediction = logistic (features ! 0 * weights ! 0 * features ! 1 * weights ! 1)
         in map2 (\<lambda>weight feature.
                    weight + learningRate * (label - prediction) * prediction * (1 - prediction) * feature)
              weights features))"

definition gradientStep :: "real \<Rightarrow> (real list \<times> real) list \<Rightarrow> real list \<Rightarrow> real list" where
  "gradientStep learningRate examples weights = foldl (gradientUpdate learningRate) weights examples"

definition matRows :: "dense \<Rightarrow> real list list" where
  "matRows m = map (\<lambda>idx. take (ncols m) (drop (idx * ncols m) (mdata m))) [0 ..< nrows m]"




section \<open>A small concrete environment\<close>

text \<open>
  A dataframe with the fields the dataframe package gives it: the column names, the rows
  and the error of the operation that made it.
\<close>

record frame =
  fnames :: "string list"
  frows :: "string list list"
  ferr :: "error option"

definition demoFrame :: frame where
  "demoFrame =
     \<lparr>fnames = [''TV'', ''Radio'', ''Newspaper'', ''Sales''],
      frows = [[''1'', ''0'', ''0'', ''3''], [''2'', ''0'', ''0'', ''5''], [''0'', ''0'', ''0'', ''2''],
               [''3'', ''0'', ''0'', ''5''], [''5'', ''0'', ''0'', ''5''], [''1'', ''1'', ''1'', ''1'']],
      ferr = None\<rparr>"


definition demoParse :: "string \<Rightarrow> error + real" where
  "demoParse s =
     (case map_of [(''0'', 0), (''1'', 1), (''2'', 2), (''3'', 3), (''5'', 5), (''640'', 640),
                   (''830'', 830), (''12.0'', 12), (''12.1'', 12.1)] s of
        None \<Rightarrow> Inl (Error ''invalid syntax'')
      | Some v \<Rightarrow> Inr v)"

definition demoEnv :: "(frame, real \<times> real) env" where
  "demoEnv =
     \<lparr>Open = (\<lambda>path. Inr path),
      Create = (\<lambda>path. None),
      ReadAll = (\<lambda>n f.
        if n = 4
        then (if f = testDataSet
              then Inr [[''TV'', ''Radio'', ''Newspaper'', ''Sales''], [''0'', ''0'', ''0'', ''2'']]
              else Inr [[''TV'', ''Radio'', ''Newspaper'', ''Sales''], [''1'', ''0'', ''0'', ''3''],
                        [''2'', ''0'', ''0'', ''5'']])
        else (if f = ''../dataset/loan_data.csv''
              then Inr [[''FICO.Range'', ''Interest.Rate''], [''640-644'', ''12.0%''],
                        [''830-834'', ''12.1%'']]
              else Inr [[''FICO_score'', ''class''], [''0'', ''1'']])),
      Read = (\<lambda>f. [([''FICO_score'', ''class''], None), ([''1'', ''1''], None),
                    ([''abc'', ''1''], None), ([''0'', ''1''], None)]),
      CsvWrite = (\<lambda>record. None),
      CsvFlush = (\<lambda>records. None),
      ParseFloat = demoParse,
      FormatFloat = (\<lambda>v prec. if v = 0 then ''0.0000'' else if v = 1 then ''1.0000'' else ''0.5000''),
      ReadCSV = (\<lambda>f. demoFrame),
      Describe = (\<lambda>df. df),
      Names = fnames,
      Nrow = (\<lambda>df. int (length (frows df))),
      ColFloat = (\<lambda>df colName. map (\<lambda>row. 0) (frows df)),
      Subset = (\<lambda>df indexes. df\<lparr>frows := map (\<lambda>i. frows df ! nat i) indexes\<rparr>),
      WriteCSV = ferr,
      NewHist = (\<lambda>vals n. None),
      NewScatter = (\<lambda>pts. None),
      Save = (\<lambda>name. None),
      Run = (\<lambda>points. (0, 0)),
      Formula = (\<lambda>m. ''Predicted = 0.0000 + TV*0.0000''),
      Predict = (\<lambda>m xs. case xs of [] \<Rightarrow> Inl (Error ''no input'') | x # rest \<Rightarrow> Inr (fst m + snd m * x)),
      Float64 = (\<lambda>k. 1 / 2)\<rparr>"














text \<open>
  Training files of the logistic-regression script: two records with the scores 1 and 0
  and the classes 1 and 0; one record with the score 1 and the class 1; the same record
  with the class 0.
\<close>

definition twoRecordsEnv :: "(frame, real \<times> real) env" where
  "twoRecordsEnv =
     demoEnv\<lparr>ReadAll := (\<lambda>n f. Inr [[''FICO_score'', ''class''], [''1'', ''1''], [''0'', ''0'']])\<rparr>"

definition classOneEnv :: "(frame, real \<times> real) env" where
  "classOneEnv = demoEnv\<lparr>ReadAll := (\<lambda>n f. Inr [[''FICO_score'', ''class''], [''1'', ''1'']])\<rparr>"

definition classZeroEnv :: "(frame, real \<times> real) env" where
  "classZeroEnv = demoEnv\<lparr>ReadAll := (\<lambda>n f. Inr [[''FICO_score'', ''class''], [''1'', ''0'']])\<rparr>"

text \<open>
  A library whose cross-validation draws its folds from the generator of \<open>math/rand\<close>:
  the accuracy of the only fold depends on the parity of that generator's state.
\<close>

definition demoGolearn :: "(string, unit, real, int) golearn" where
  "demoGolearn =
     \<lparr>ParseCSVToInstances = (\<lambda>path hasHeaders. Inr path),
      ParseCSVToTemplatedInstances = (\<lambda>path hasHeaders template. Inr path),
      MathSeed = (\<lambda>seed. seed),
      ExpSeed = (\<lambda>seed. seed),
      GenerateCrossFoldValidationConfusionMatrices =
        (\<lambda>data cls folds w. Inr [if even (mathRand w) then 0.9 else 0.96]),
      GetCrossValidatedMetric = (\<lambda>cv. (sum_list cv / real (length cv), 0)),
      BinaryConvert = (\<lambda>data. data),
      NBFit = (\<lambda>data. ()),
      NBPredict = (\<lambda>nb data. Inr data),
      GetConfusionMatrix = (\<lambda>data predictions. Inr 1),
      GetAccuracy = (\<lambda>cm. cm)\<rparr>"



section \<open>Properties of the splitter\<close>

lemma quo_nonneg: "0 \<le> a \<Longrightarrow> 0 < b \<Longrightarrow> quo a b = a div b"
  by (simp add: quo_def)

lemma wrap64_id: "- (2 ^ 63) \<le> x \<Longrightarrow> x < 2 ^ 63 \<Longrightarrow> wrap64 x = x"
  by (simp add: wrap64_def)

lemma split_sum: "(4 * n + 4) div 5 + n div 5 = (n::int)"
  by linarith


lemma splitNums_small:
  assumes "0 \<le> n" "n < 2 ^ 61"
  shows "splitNums n = ((4 * n + 4) div 5, n div 5)"
proof -
  have w: "wrap64 (4 * n) = 4 * n" using assms by (intro wrap64_id) auto
  have q1: "quo (4 * n) 5 = 4 * n div 5" using assms by (simp add: quo_nonneg)
  have q2: "quo n 5 = n div 5" using assms by (simp add: quo_nonneg)
  have w2: "wrap64 (4 * n div 5 + n div 5) = 4 * n div 5 + n div 5"
    using assms by (intro wrap64_id) auto
  have w3: "wrap64 (4 * n div 5 + 1) = 4 * n div 5 + 1"
    using assms by (intro wrap64_id) auto
  have c1: "4 * n div 5 + n div 5 < n \<Longrightarrow> 4 * n div 5 + 1 = (4 * n + 4) div 5" by linarith
  have c2: "\<not> 4 * n div 5 + n div 5 < n \<Longrightarrow> 4 * n div 5 = (4 * n + 4) div 5" by linarith
  show ?thesis
    unfolding splitNums_def Let_def w q1 q2 w2 w3 using c1 c2 by simp
qed

lemma enumTraining_from:
  "0 \<le> i \<Longrightarrow> i \<le> n \<Longrightarrow> length idx = nat n \<Longrightarrow>
   enumTraining i n idx = Inr (take (nat i) idx @ map int [nat i ..< nat n])"
proof (induction i n idx rule: enumTraining.induct)
  case (1 i n idx)
  show ?case
  proof (cases "i < n")
    case True
    have inr: "0 \<le> i \<and> nat i < length idx" using True "1.prems" by simp
    have step: "enumTraining i n idx = enumTraining (i + 1) n (idx[nat i := i])"
      by (subst enumTraining.simps) (simp add: True inr)
    have ih: "enumTraining (i + 1) n (idx[nat i := i]) =
        Inr (take (nat (i + 1)) (idx[nat i := i]) @ map int [nat (i + 1) ..< nat n])"
      using True "1.prems" inr by (intro "1.IH") simp_all
    have n1: "nat (i + 1) = Suc (nat i)" using "1.prems" by simp
    have t: "take (Suc (nat i)) (idx[nat i := i]) = take (nat i) idx @ [i]"
      using inr by (simp add: take_Suc_conv_app_nth)
    have u: "[nat i ..< nat n] = nat i # [Suc (nat i) ..< nat n]"
      using True "1.prems" by (simp add: upt_conv_Cons)
    have v: "int (nat i) = i" using "1.prems" by simp
    show ?thesis unfolding step ih n1 t u by (simp add: v del: int_nat_eq)
  next
    case False
    then have eq: "i = n" using "1.prems" by simp
    have "enumTraining i n idx = Inr idx"
      by (subst enumTraining.simps) (simp add: False)
    then show ?thesis using "1.prems" eq by simp
  qed
qed

lemma enumTest_from:
  "0 \<le> i \<Longrightarrow> i \<le> n \<Longrightarrow> length idx = nat n \<Longrightarrow> 0 \<le> t \<Longrightarrow> t + n < 2 ^ 63 \<Longrightarrow>
   enumTest i n t idx = Inr (take (nat i) idx @ map int [nat t + nat i ..< nat t + nat n])"
proof (induction i n t idx rule: enumTest.induct)
  case (1 i n t idx)
  show ?case
  proof (cases "i < n")
    case True
    have inr: "0 \<le> i \<and> nat i < length idx" using True "1.prems" by simp
    have w: "wrap64 (t + i) = t + i" using True "1.prems" by (intro wrap64_id) auto
    have step: "enumTest i n t idx = enumTest (i + 1) n t (idx[nat i := t + i])"
      by (subst enumTest.simps) (simp add: True inr w)
    have "enumTest (i + 1) n t (idx[nat i := wrap64 (t + i)]) =
        Inr (take (nat (i + 1)) (idx[nat i := wrap64 (t + i)])
             @ map int [nat t + nat (i + 1) ..< nat t + nat n])"
      using True "1.prems" inr by (intro "1.IH") simp_all
    then have ih: "enumTest (i + 1) n t (idx[nat i := t + i]) =
        Inr (take (nat (i + 1)) (idx[nat i := t + i])
             @ map int [nat t + nat (i + 1) ..< nat t + nat n])"
      by (simp only: w)
    have n1: "nat (i + 1) = Suc (nat i)" using "1.prems" by simp
    have tk: "take (Suc (nat i)) (idx[nat i := t + i]) = take (nat i) idx @ [t + i]"
      using inr by (simp add: take_Suc_conv_app_nth)
    have u: "[nat t + nat i ..< nat t + nat n]
             = (nat t + nat i) # [nat t + Suc (nat i) ..< nat t + nat n]"
      using True "1.prems" by (simp add: upt_conv_Cons)
    have v: "int (nat t) + int (nat i) = t + i" using "1.prems" by simp
    show ?thesis unfolding step ih n1 tk u by (simp add: v del: int_nat_eq)
  next
    case False
    then have eq: "i = n" using "1.prems" by simp
    have "enumTest i n t idx = Inr idx"
      by (subst enumTest.simps) (simp add: False)
    then show ?thesis using "1.prems" eq by simp
  qed
qed

lemma splitIdx_small:
  assumes "0 \<le> n" "n < 2 ^ 61"
  shows "splitIdx n = Inr (map int [0 ..< nat ((4 * n + 4) div 5)],
                           map int [nat ((4 * n + 4) div 5) ..< nat n])"
proof -
  define t where "t = (4 * n + 4) div 5"
  define e where "e = n div 5"
  have s: "t + e = n" unfolding t_def e_def by (rule split_sum)
  have t0: "0 \<le> t" unfolding t_def using assms(1) by simp
  have e0: "0 \<le> e" unfolding e_def using assms(1) by simp
  have a: "enumTraining 0 t (replicate (nat t) 0) = Inr (map int [0 ..< nat t])"
    using enumTraining_from [of 0 t "replicate (nat t) 0"] t0 by simp
  have "t + e < 2 ^ 63" using assms s by simp
  then have b: "enumTest 0 e t (replicate (nat e) 0) = Inr (map int [nat t ..< nat t + nat e])"
    using enumTest_from [of 0 e "replicate (nat e) 0" t] t0 e0 by simp
  have c: "nat t + nat e = nat n" using t0 e0 s by linarith
  have sn: "splitNums n = (t, e)" unfolding t_def e_def by (rule splitNums_small [OF assms])
  show ?thesis
    unfolding splitIdx_def sn t_def [symmetric] using t0 e0 by (simp add: makeInts_def a b c)
qed



text \<open>
  C4.  The index slices handed to \<open>Subset\<close> are fixed by the number of rows alone: the
  training slice is \<open>0, \<dots>, trainingNum - 1\<close> and the test slice is
  \<open>trainingNum, \<dots>, trainingNum + testNum - 1\<close>, in this order.  The two ranges are
  disjoint and together they are the row indexes \<open>0, \<dots>, n - 1\<close> in file order.
  \<open>splitData\<close> writes the subset of the first range to the training file and the subset
  of the second range to the test file; nothing in it is random.
\<close>

theorem split_index_ranges:
  assumes "Open E dataset = Inr f" and "Nrow E (ReadCSV E f) = n" and "0 \<le> n" and "n < 2 ^ 61"
  shows "(let trainingNum = nat (fst (splitNums n));
              testNum = nat (snd (splitNums n));
              trainingIdx = map int [0 ..< trainingNum];
              testIdx = map int [trainingNum ..< trainingNum + testNum]
          in splitIdx n = Inr (trainingIdx, testIdx)
             \<and> set trainingIdx \<inter> set testIdx = {}
             \<and> trainingIdx @ testIdx = map int [0 ..< nat n]
             \<and> splitData E =
                 writeSets E (\<lambda>k. if k = 0 then Subset E (ReadCSV E f) trainingIdx
                                   else Subset E (ReadCSV E f) testIdx)
                   0 [trainingDataSet, testDataSet])"
proof -
  define t where "t = (4 * n + 4) div 5"
  define e where "e = n div 5"
  have s: "t + e = n" unfolding t_def e_def by (rule split_sum)
  have t0: "0 \<le> t" unfolding t_def using assms(3) by simp
  have e0: "0 \<le> e" unfolding e_def using assms(3) by simp
  have c: "nat t + nat e = nat n" using t0 e0 s by linarith
  have sn: "splitNums n = (t, e)"
    unfolding t_def e_def by (rule splitNums_small [OF assms(3,4)])
  have si: "splitIdx n = Inr (map int [0 ..< nat t], map int [nat t ..< nat n])"
    using splitIdx_small [OF assms(3,4)] unfolding t_def [symmetric] .
  have le: "nat t \<le> nat n" using c by simp
  have cat: "map int [0 ..< nat t] @ map int [nat t ..< nat n] = map int [0 ..< nat n]"
    using le by (metis le0 map_append upt_add_eq_append le_Suc_ex)
  have dis: "set (map int [0 ..< nat t]) \<inter> set (map int [nat t ..< nat n]) = {}"
    by auto
  have sd: "splitData E =
      writeSets E (\<lambda>k. if k = 0 then Subset E (ReadCSV E f) (map int [0 ..< nat t])
                        else Subset E (ReadCSV E f) (map int [nat t ..< nat n]))
        0 [trainingDataSet, testDataSet]"
    unfolding splitData_def splitDataOn_def by (simp only: assms(1,2) si sum.case Let_def prod.case)
  show ?thesis
    unfolding Let_def sn fst_conv snd_conv c using si dis cat sd by simp
qed

theorem split_index_ranges_witness:
  "splitIdx 6 = Inr ([0, 1, 2, 3, 4], [5])
   \<and> splitData demoEnv =
       Inr [(trainingDataSet, demoFrame\<lparr>frows := take 5 (frows demoFrame)\<rparr>),
            (testDataSet, demoFrame\<lparr>frows := drop 5 (frows demoFrame)\<rparr>)]"
proof -
  have o: "Open demoEnv dataset = Inr dataset" by (simp add: demoEnv_def)
  have n: "Nrow demoEnv (ReadCSV demoEnv dataset) = 6" by (simp add: demoEnv_def demoFrame_def)
  have p1: "(0::int) \<le> 6" and p2: "(6::int) < 2 ^ 61" by simp_all
  have sn: "splitNums 6 = (5, 1)" by (simp add: splitNums_def wrap64_def quo_def)
  have u1: "[0 ..< 5] = [0, 1, 2, 3, 4::nat]" by (simp add: upt_rec)
  have u2: "[5 ..< 6] = [5::nat]" by (simp add: upt_rec)
  note th = split_index_ranges [OF o n p1 p2, unfolded Let_def sn fst_conv snd_conv]
  have a: "splitIdx 6 = Inr ([0, 1, 2, 3, 4], [5])"
    using conjunct1 [OF th] by (simp add: u1 u2)
  have b: "splitData demoEnv =
      writeSets demoEnv (\<lambda>k. if k = 0 then Subset demoEnv (ReadCSV demoEnv dataset) (map int [0 ..< nat 5])
                              else Subset demoEnv (ReadCSV demoEnv dataset) (map int [nat 5 ..< nat 5 + nat 1]))
        0 [trainingDataSet, testDataSet]"
    by (rule conjunct2 [OF conjunct2 [OF conjunct2 [OF th]]])
  have c: "splitData demoEnv =
       Inr [(trainingDataSet, demoFrame\<lparr>frows := take 5 (frows demoFrame)\<rparr>),
            (testDataSet, demoFrame\<lparr>frows := drop 5 (frows demoFrame)\<rparr>)]"
    unfolding b by (simp add: demoEnv_def demoFrame_def u1 u2)
  show ?thesis using a c by simp
qed

section \<open>Properties of the linear-regression script\<close>

lemma trainLoop_collect:
  "0 < i \<Longrightarrow> trainLoop E i records points =
     (case collect (trainPoint E) records of Inl a \<Rightarrow> Inl a | Inr ps \<Rightarrow> Inr (points @ ps))"
  by (induction records arbitrary: i points) (auto split: sum.splits)

lemma testLoop_collect:
  "0 < i \<Longrightarrow> testLoop E r len i records mAE =
     (case collect (testTerm E r len) records of Inl a \<Rightarrow> Inl a | Inr ts \<Rightarrow> Inr (mAE + sum_list ts))"
  by (induction records arbitrary: i mAE) (auto split: sum.splits)

text \<open>
  C10.  When the training file and the test file each hold a first record and further
  records, the points the regression is fitted on are those of the further records, in
  order, and the value printed as MAE is the sum of the terms of the further records: the
  first record gives no point and no term, and its fields are never parsed.
\<close>

theorem header_excluded:
  assumes "Open E trainingDataSet = Inr f" and "ReadAll E 4 f = Inr (header # records)"
    and "Open E testDataSet = Inr g" and "ReadAll E 4 g = Inr (header' # records')"
  shows "train E =
           (case collect (trainPoint E) records of
              Inl a \<Rightarrow> Inl a
            | Inr points \<Rightarrow> Inr (Run E points, Formula E (Run E points)))
       \<and> test E r =
           (case collect (testTerm E r (length (header' # records'))) records' of
              Inl a \<Rightarrow> Inl a
            | Inr terms \<Rightarrow> Inr (sum_list terms))"
proof -
  have a: "trainLoop E 0 (header # records) [] =
      (case collect (trainPoint E) records of Inl a \<Rightarrow> Inl a | Inr ps \<Rightarrow> Inr ps)"
    using trainLoop_collect [of 1 E records "[]"] by (simp split: sum.splits)
  have b: "testLoop E r (length (header' # records')) 0 (header' # records') 0 =
      (case collect (testTerm E r (length (header' # records'))) records' of
         Inl a \<Rightarrow> Inl a | Inr ts \<Rightarrow> Inr (sum_list ts))"
    using testLoop_collect [of 1 E r "length (header' # records')" records' 0]
    by (simp split: sum.splits)
  have t1: "train E =
           (case collect (trainPoint E) records of
              Inl a \<Rightarrow> Inl a
            | Inr points \<Rightarrow> Inr (Run E points, Formula E (Run E points)))"
    unfolding train_def assms(1,2) sum.case a by (simp add: Let_def split: sum.splits)
  have t2: "test E r =
           (case collect (testTerm E r (length (header' # records'))) records' of
              Inl a \<Rightarrow> Inl a
            | Inr terms \<Rightarrow> Inr (sum_list terms))"
    unfolding test_def assms(3,4) sum.case b ..
  show ?thesis using t1 t2 by (rule conjI)
qed

lemma demo_training_points:
  "collect (trainPoint demoEnv) [[''1'', ''0'', ''0'', ''3''], [''2'', ''0'', ''0'', ''5'']]
     = Inr [(3, [1]), (5, [2])]"
  by (simp add: trainPoint_def elemAt_def demoEnv_def demoParse_def)

lemma demo_test_terms:
  "collect (testTerm demoEnv (0, 0) 2) [[''0'', ''0'', ''0'', ''2'']] = Inr [1]"
  by (simp add: testTerm_def elemAt_def demoEnv_def demoParse_def)

theorem header_excluded_witness:
  "train demoEnv = Inr ((0, 0), ''Predicted = 0.0000 + TV*0.0000'')
   \<and> test demoEnv (0, 0) = Inr 1"
proof -
  have o1: "Open demoEnv trainingDataSet = Inr trainingDataSet" by (simp add: demoEnv_def)
  have r1: "ReadAll demoEnv 4 trainingDataSet =
      Inr ([''TV'', ''Radio'', ''Newspaper'', ''Sales'']
           # [[''1'', ''0'', ''0'', ''3''], [''2'', ''0'', ''0'', ''5'']])"
    by (simp add: demoEnv_def trainingDataSet_def testDataSet_def)
  have o2: "Open demoEnv testDataSet = Inr testDataSet" by (simp add: demoEnv_def)
  have r2: "ReadAll demoEnv 4 testDataSet =
      Inr ([''TV'', ''Radio'', ''Newspaper'', ''Sales''] # [[''0'', ''0'', ''0'', ''2'']])"
    by (simp add: demoEnv_def)
  have run: "Run demoEnv [(3, [1]), (5, [2])] = (0, 0)"
    and formula: "Formula demoEnv (0, 0) = ''Predicted = 0.0000 + TV*0.0000''"
    by (simp_all add: demoEnv_def)
  have len: "length ([''TV'', ''Radio'', ''Newspaper'', ''Sales''] # [[''0'', ''0'', ''0'', ''2'']]) = 2"
    by simp
  note th = header_excluded [OF o1 r1 o2 r2, of "(0, 0)",
      unfolded len demo_training_points demo_test_terms sum.case run formula]
  show ?thesis using th by simp
qed

text \<open>
  The value \<open>test\<close> prints: the absolute differences of the examples summed up and
  divided by the number of records of the file, the header included.
\<close>

lemma testTerm_example:
  "testTerm E r len record =
     (case testExample E r record of
        Inl a \<Rightarrow> Inl a
      | Inr (yObserved, yPredicted) \<Rightarrow> Inr (\<bar>yObserved - yPredicted\<bar> / real len))"
  by (simp add: testTerm_def testExample_def split: sum.splits)

lemma collect_testTerm:
  "collect (testExample E r) records = Inr examples \<Longrightarrow>
   collect (testTerm E r len) records =
     Inr (map (\<lambda>(yObserved, yPredicted). \<bar>yObserved - yPredicted\<bar> / real len) examples)"
  by (induction records arbitrary: examples)
     (auto simp: testTerm_example split: sum.splits)

lemma sum_list_divide:
  "sum_list (map (\<lambda>(a, b). \<bar>a - b\<bar> / c) xs) = (\<Sum>(a, b)\<leftarrow>xs. \<bar>a - b\<bar>) / (c::real)"
  by (induction xs) (auto simp: add_divide_distrib)

lemma collect_length: "collect f xs = Inr ys \<Longrightarrow> length ys = length xs"
  by (induction xs arbitrary: ys) (auto split: sum.splits)

lemma test_divides_by_records:
  assumes "Open E testDataSet = Inr g" and "ReadAll E 4 g = Inr (header # records)"
    and "collect (testExample E r) records = Inr examples"
  shows "test E r =
    Inr ((\<Sum>(yObserved, yPredicted)\<leftarrow>examples. \<bar>yObserved - yPredicted\<bar>)
         / real (length examples + 1))"
proof -
  have l: "length examples = length records" using assms(3) by (rule collect_length)
  have "testLoop E r (length (header # records)) 0 (header # records) 0 =
      (case collect (testTerm E r (length (header # records))) records of
         Inl a \<Rightarrow> Inl a | Inr ts \<Rightarrow> Inr (sum_list ts))"
    using testLoop_collect [of 1 E r "length (header # records)" records 0]
    by (simp split: sum.splits)
  then show ?thesis
    unfolding test_def assms(1,2) sum.case
    by (simp add: collect_testTerm [OF assms(3)] sum_list_divide l)
qed

text \<open>
  C2.  A test file with a header and one data row whose observed value is 2, and a model
  that predicts 0: the mean absolute error of the single example is 2, and \<open>test\<close>
  prints 1, the absolute difference divided by the two records of the file.
\<close>

theorem mae_counts_header:
  "ReadAll demoEnv 4 testDataSet =
     Inr [[''TV'', ''Radio'', ''Newspaper'', ''Sales''], [''0'', ''0'', ''0'', ''2'']]
   \<and> collect (testExample demoEnv (0, 0)) [[''0'', ''0'', ''0'', ''2'']] = Inr [(2, 0)]
   \<and> meanAbsoluteError [(2, 0)] = 2
   \<and> test demoEnv (0, 0) = Inr 1"
proof -
  have o: "Open demoEnv testDataSet = Inr testDataSet" by (simp add: demoEnv_def)
  have ra: "ReadAll demoEnv 4 testDataSet =
     Inr [[''TV'', ''Radio'', ''Newspaper'', ''Sales''], [''0'', ''0'', ''0'', ''2'']]"
    by (simp add: demoEnv_def)
  have ex: "collect (testExample demoEnv (0, 0)) [[''0'', ''0'', ''0'', ''2'']] = Inr [(2, 0)]"
    by (simp add: testExample_def elemAt_def demoEnv_def demoParse_def)
  have m: "meanAbsoluteError [(2, 0)] = 2" by (simp add: meanAbsoluteError_def)
  have t: "test demoEnv (0, 0) = Inr 1"
    using test_divides_by_records [OF o ra ex] by simp
  show ?thesis using ra ex m t by simp
qed

section \<open>Properties of the data cleaner\<close>

lemma Split_nonempty: "Split s sep \<noteq> []"
  by (induction s) (auto split: list.splits)

lemma elemAt_Split: "elemAt (Split s sep) 0 = Inr (Split s sep ! 0)"
  using Split_nonempty [of s sep] by (simp add: elemAt_def)









section \<open>Properties of the gradient-descent trainer\<close>

lemma updateWeights_from:
  "length weights = length featureRow \<Longrightarrow> j \<le> length featureRow \<Longrightarrow>
   updateWeights learningRate predError pred featureRow j weights =
     Inr (take j weights
          @ map2 (\<lambda>weight feature. weight + learningRate * predError * pred * (1 - pred) * feature)
              (drop j weights) (drop j featureRow))"
proof (induction learningRate predError pred featureRow j weights rule: updateWeights.induct)
  case (1 learningRate predError pred featureRow j weights)
  let ?f = "\<lambda>weight feature. weight + learningRate * predError * pred * (1 - pred) * feature"
  show ?case
  proof (cases "j < length featureRow")
    case True
    then have jw: "j < length weights" using "1.prems" by simp
    let ?w = "weights[j := weights ! j + learningRate * predError * pred * (1 - pred) * featureRow ! j]"
    have step: "updateWeights learningRate predError pred featureRow j weights =
        updateWeights learningRate predError pred featureRow (j + 1) ?w"
      by (subst updateWeights.simps) (simp add: True jw)
    have ih: "updateWeights learningRate predError pred featureRow (j + 1) ?w =
        Inr (take (j + 1) ?w @ map2 ?f (drop (j + 1) ?w) (drop (j + 1) featureRow))"
      using True jw "1.prems" by (intro "1.IH") simp_all
    have tk: "take (j + 1) ?w = take j weights @ [?f (weights ! j) (featureRow ! j)]"
      using jw by (simp add: take_Suc_conv_app_nth)
    have dr: "drop (j + 1) ?w = drop (Suc j) weights" by simp
    have d1: "drop j weights = weights ! j # drop (Suc j) weights"
      using jw by (simp add: Cons_nth_drop_Suc)
    have d2: "drop j featureRow = featureRow ! j # drop (Suc j) featureRow"
      using True by (simp add: Cons_nth_drop_Suc)
    show ?thesis unfolding step ih tk dr d1 d2 by simp
  next
    case False
    then have eq: "j = length featureRow" using "1.prems" by simp
    have "updateWeights learningRate predError pred featureRow j weights = Inr weights"
      by (subst updateWeights.simps) (simp add: False)
    then show ?thesis using eq "1.prems" by simp
  qed
qed

lemma updateWeights_gradientUpdate:
  assumes "length weights = 2" and "length featureRow = 2"
  shows "updateWeights learningRate
           (label - logistic (featureRow ! 0 * weights ! 0 * featureRow ! 1 * weights ! 1))
           (logistic (featureRow ! 0 * weights ! 0 * featureRow ! 1 * weights ! 1))
           featureRow 0 weights
         = Inr (gradientUpdate learningRate weights (featureRow, label))"
  using updateWeights_from [of weights featureRow 0] assms
  by (simp add: gradientUpdate_def Let_def)

lemma length_gradientUpdate:
  "length weights = 2 \<Longrightarrow> length featureRow = 2 \<Longrightarrow>
   length (gradientUpdate learningRate weights (featureRow, label)) = 2"
  by (simp add: gradientUpdate_def Let_def)

lemma length_matRows: "length (matRows m) = nrows m"
  by (simp add: matRows_def)

lemma matRows_nth:
  "idx < nrows m \<Longrightarrow> matRows m ! idx = take (ncols m) (drop (idx * ncols m) (mdata m))"
  by (simp add: matRows_def)

lemma Row_matRows: "idx < nrows m \<Longrightarrow> Row idx m = Inr (matRows m ! idx)"
  by (simp add: Row_def matRows_nth)

lemma length_matRows_nth:
  assumes "ncols m = 2" and "length (mdata m) = nrows m * 2" and "idx < nrows m"
  shows "length (matRows m ! idx) = 2"
proof -
  have "idx * 2 + 2 \<le> length (mdata m)" using assms by simp
  then show ?thesis using assms by (simp add: matRows_nth)
qed

lemma labelsLoop_foldl:
  assumes "ncols features = 2" and "length (mdata features) = nrows features * 2"
  shows "length weights = 2 \<Longrightarrow> idx + length labels \<le> nrows features \<Longrightarrow>
    \<exists>total. labelsLoop features learningRate idx labels weights sumError =
      Inr (foldl (gradientUpdate learningRate) weights (zip (drop idx (matRows features)) labels),
           total)"
proof (induction labels arbitrary: idx weights sumError)
  case Nil
  then show ?case by simp
next
  case (Cons label rest)
  have lt: "idx < nrows features" using Cons.prems by simp
  let ?row = "matRows features ! idx"
  have row: "Row idx features = Inr ?row" using lt by (rule Row_matRows)
  have lr: "length ?row = 2" using assms lt by (rule length_matRows_nth)
  have dr: "drop idx (matRows features) = ?row # drop (Suc idx) (matRows features)"
    using lt by (simp add: Cons_nth_drop_Suc length_matRows)
  let ?w = "gradientUpdate learningRate weights (?row, label)"
  have lw: "length ?w = 2" using Cons.prems(1) lr by (rule length_gradientUpdate)
  have up: "updateWeights learningRate
           (label - logistic (?row ! 0 * weights ! 0 * ?row ! 1 * weights ! 1))
           (logistic (?row ! 0 * weights ! 0 * ?row ! 1 * weights ! 1)) ?row 0 weights = Inr ?w"
    using Cons.prems(1) lr by (rule updateWeights_gradientUpdate)
  obtain total where ih: "labelsLoop features learningRate (idx + 1) rest ?w
      (sumError + (label - logistic (?row ! 0 * weights ! 0 * ?row ! 1 * weights ! 1)) ^ 2) =
      Inr (foldl (gradientUpdate learningRate) ?w (zip (drop (idx + 1) (matRows features)) rest), total)"
    using Cons.IH [OF lw, of "idx + 1"] Cons.prems(2) by auto
  have "labelsLoop features learningRate idx (label # rest) weights sumError =
      labelsLoop features learningRate (idx + 1) rest ?w
        (sumError + (label - logistic (?row ! 0 * weights ! 0 * ?row ! 1 * weights ! 1)) ^ 2)"
    using Cons.prems(1) lr up by (simp add: row elemAt_def Let_def)
  then show ?case unfolding ih dr by simp
qed

lemma length_foldl_gradientUpdate:
  "length weights = 2 \<Longrightarrow> \<forall>example \<in> set examples. length (fst example) = 2 \<Longrightarrow>
   length (foldl (gradientUpdate learningRate) weights examples) = 2"
proof (induction examples arbitrary: weights)
  case Nil
  then show ?case by simp
next
  case (Cons example examples)
  obtain featureRow label where e: "example = (featureRow, label)" by (cases example)
  have "length (gradientUpdate learningRate weights example) = 2"
    unfolding e using Cons.prems e by (intro length_gradientUpdate) auto
  then show ?case using Cons by simp
qed

lemma matRows_lengths:
  assumes "ncols features = 2" and "length (mdata features) = nrows features * 2"
  shows "\<forall>example \<in> set (zip (matRows features) labels). length (fst example) = 2"
proof
  fix example assume mem: "example \<in> set (zip (matRows features) labels)"
  obtain featureRow label where e: "example = (featureRow, label)" by (cases example)
  have "featureRow \<in> set (matRows features)" using mem unfolding e by (rule set_zip_leftD)
  then have "fst example \<in> set (matRows features)" by (simp add: e)
  then obtain idx where "idx < nrows features" "fst example = matRows features ! idx"
    by (auto simp: in_set_conv_nth length_matRows)
  then show "length (fst example) = 2" using length_matRows_nth [OF assms] by simp
qed

lemma length_gradientStep:
  assumes "ncols features = 2" and "length (mdata features) = nrows features * 2"
    and "length weights = 2"
  shows "length (gradientStep learningRate (zip (matRows features) labels) weights) = 2"
  unfolding gradientStep_def
  using assms(3) matRows_lengths [OF assms(1,2)] by (rule length_foldl_gradientUpdate)

lemma stepsLoop_funpow:
  "ncols features = 2 \<Longrightarrow> length (mdata features) = nrows features * 2 \<Longrightarrow>
   length labels \<le> nrows features \<Longrightarrow> length weights = 2 \<Longrightarrow> i \<le> numSteps \<Longrightarrow>
    stepsLoop features labels learningRate numSteps i weights =
      Inr ((gradientStep learningRate (zip (matRows features) labels) ^^ nat (numSteps - i)) weights)"
proof (induction features labels learningRate numSteps i weights rule: stepsLoop.induct)
  case (1 features labels learningRate numSteps i weights)
  note a = "1.prems"(1,2)
  let ?g = "gradientStep learningRate (zip (matRows features) labels)"
  show ?case
  proof (cases "i < numSteps")
    case True
    obtain total where ll: "labelsLoop features learningRate 0 labels weights 0 = Inr (?g weights, total)"
      using labelsLoop_foldl [OF a, of weights 0 labels learningRate 0] "1.prems"(3,4)
      by (auto simp: gradientStep_def)
    have step: "stepsLoop features labels learningRate numSteps i weights =
        stepsLoop features labels learningRate numSteps (i + 1) (?g weights)"
      by (subst stepsLoop.simps) (simp add: True ll)
    have lg: "length (?g weights) = 2" using a "1.prems"(4) by (rule length_gradientStep)
    have ih: "stepsLoop features labels learningRate numSteps (i + 1) (?g weights) =
        Inr ((?g ^^ nat (numSteps - (i + 1))) (?g weights))"
      using True lg "1.prems"(1,2,3)
      by (intro "1.IH" [OF True ll refl]) simp_all
    have n: "nat (numSteps - i) = Suc (nat (numSteps - (i + 1)))" using True by simp
    show ?thesis unfolding step ih n by (simp add: funpow_swap1)
  next
    case False
    then have eq: "i = numSteps" using "1.prems" by simp
    have "stepsLoop features labels learningRate numSteps i weights = Inr weights"
      by (subst stepsLoop.simps) (simp add: False)
    then show ?thesis using eq by simp
  qed
qed

lemma logisticRegression_funpow:
  assumes "ncols features = 2" and "length (mdata features) = nrows features * 2"
    and "length labels \<le> nrows features" and "0 \<le> numSteps"
  shows "logisticRegression E features labels numSteps learningRate =
    Inr ((gradientStep learningRate (zip (matRows features) labels) ^^ nat numSteps)
           [Float64 E 0, Float64 E 1])"
proof -
  have u: "[0 ..< 2] = [0, 1::nat]" by (simp add: upt_rec)
  have "stepsLoop features labels learningRate numSteps 0 [Float64 E 0, Float64 E 1] =
      Inr ((gradientStep learningRate (zip (matRows features) labels) ^^ nat (numSteps - 0))
             [Float64 E 0, Float64 E 1])"
    using assms by (intro stepsLoop_funpow) simp_all
  then show ?thesis by (simp add: logisticRegression_def assms(1) u)
qed

lemma loadLoop_lengths:
  "loadLoop E idx records featureData labels featureIndex = Inr (featureData', labels') \<Longrightarrow>
   length featureData' = length featureData \<and> length labels' = length labels"
proof (induction records arbitrary: idx featureData labels featureIndex)
  case Nil
  then show ?case by simp
next
  case (Cons row rest)
  show ?case
  proof (cases "idx = 0")
    case True
    then show ?thesis using Cons by simp
  next
    case False
    from Cons.prems False obtain fd2 l1 where
      rec: "loadLoop E (idx + 1) rest fd2 l1 (featureIndex + 2) = Inr (featureData', labels')"
      and len: "length fd2 = length featureData" "length l1 = length labels"
      by (auto simp: store_def split: sum.splits if_splits)
    from Cons.IH [OF rec] len show ?thesis by simp
  qed
qed

text \<open>
  When the training file is read and its records load, \<open>train\<close> calls the trainer
  with 100 steps and the learning rate 0.3, and the trainer returns the weights that 100
  steps make of the two random initial weights, whatever the data.  One step goes through
  the rows of the feature matrix, each with the label at the same index, in order.
\<close>

lemma train_logistic_steps:
  assumes "Open E ''../dataset/training.csv'' = Inr f" and "ReadAll E 2 f = Inr rawCSVData"
    and "loadLoop E 0 rawCSVData (replicate (2 * length rawCSVData) 0)
           (replicate (length rawCSVData) 0) 0 = Inr (featureData, labels)"
  shows "(let features = \<lparr>nrows = length rawCSVData, ncols = 2, mdata = featureData\<rparr>;
              weights = (gradientStep 0.3 (zip (matRows features) labels) ^^ 100)
                          [Float64 E 0, Float64 E 1]
          in NewDense (length rawCSVData) 2 featureData = Inr features
             \<and> logisticRegression E features labels 100 0.3 = Inr weights
             \<and> train_logistic E = Inr (weights ! 0, weights ! 1))
       \<and> (\<forall>learningRate weights featureRow label.
             gradientUpdate learningRate weights (featureRow, label) =
               map2 (\<lambda>weight feature.
                       weight + learningRate
                         * (label - logistic (featureRow ! 0 * weights ! 0 * featureRow ! 1 * weights ! 1))
                         * logistic (featureRow ! 0 * weights ! 0 * featureRow ! 1 * weights ! 1)
                         * (1 - logistic (featureRow ! 0 * weights ! 0 * featureRow ! 1 * weights ! 1))
                         * feature)
                 weights featureRow)
       \<and> (\<forall>learningRate examples. gradientStep learningRate examples
             = (\<lambda>weights. foldl (gradientUpdate learningRate) weights examples))"
proof -
  define features where "features = \<lparr>nrows = length rawCSVData, ncols = 2, mdata = featureData\<rparr>"
  define weights where "weights = (gradientStep 0.3 (zip (matRows features) labels) ^^ 100)
                          [Float64 E 0, Float64 E 1]"
  have len: "length featureData = 2 * length rawCSVData" "length labels = length rawCSVData"
    using loadLoop_lengths [OF assms(3)] by simp_all
  have nd: "NewDense (length rawCSVData) 2 featureData = Inr features"
    using len by (simp add: NewDense_def features_def)
  have c: "ncols features = 2" and d: "length (mdata features) = nrows features * 2"
    and l: "length labels \<le> nrows features"
    using len by (simp_all add: features_def)
  have lr: "logisticRegression E features labels 100 0.3 = Inr weights"
    using logisticRegression_funpow [OF c d l, of 100 E "0.3"] by (simp add: weights_def)
  have init: "length [Float64 E 0, Float64 E 1] = 2" by simp
  have lw: "length ((gradientStep 0.3 (zip (matRows features) labels) ^^ k)
                      [Float64 E 0, Float64 E 1]) = 2" for k
    by (induction k) (simp_all add: length_gradientStep [OF c d])
  have lw2: "length weights = 2" unfolding weights_def by (rule lw)
  have tl: "train_logistic E = Inr (weights ! 0, weights ! 1)"
    unfolding train_logistic_def assms(1,2) sum.case assms(3) prod.case nd lr
    using lw2 by (simp add: elemAt_def)
  have gu: "\<forall>learningRate weights featureRow label.
             gradientUpdate learningRate weights (featureRow, label) =
               map2 (\<lambda>weight feature.
                       weight + learningRate
                         * (label - logistic (featureRow ! 0 * weights ! 0 * featureRow ! 1 * weights ! 1))
                         * logistic (featureRow ! 0 * weights ! 0 * featureRow ! 1 * weights ! 1)
                         * (1 - logistic (featureRow ! 0 * weights ! 0 * featureRow ! 1 * weights ! 1))
                         * feature)
                 weights featureRow"
    by (simp add: gradientUpdate_def Let_def)
  have gs: "\<forall>learningRate examples. gradientStep learningRate examples
             = (\<lambda>weights. foldl (gradientUpdate learningRate) weights examples)"
    by (simp add: gradientStep_def fun_eq_iff)
  have main: "(let features = \<lparr>nrows = length rawCSVData, ncols = 2, mdata = featureData\<rparr>;
              weights = (gradientStep 0.3 (zip (matRows features) labels) ^^ 100)
                          [Float64 E 0, Float64 E 1]
          in NewDense (length rawCSVData) 2 featureData = Inr features
             \<and> logisticRegression E features labels 100 0.3 = Inr weights
             \<and> train_logistic E = Inr (weights ! 0, weights ! 1))"
    unfolding Let_def features_def [symmetric] weights_def [symmetric] using nd lr tl by simp
  show ?thesis using main gu gs by blast
qed

lemma logistic_bounds: "0 < logistic x \<and> logistic x < 1"
proof -
  have "0 < exp (- x)" by simp
  then have "1 < 1 + exp (- x)" by simp
  then show ?thesis by (simp add: logistic_def add_pos_pos)
qed

lemma gradientUpdate_zero_row:
  "length weights = 2 \<Longrightarrow> gradientUpdate learningRate weights ([0, 0], label) = weights"
proof -
  assume "length weights = 2"
  then obtain a b where w: "weights = [a, b]"
    by (cases weights; cases "tl weights") auto
  show ?thesis by (simp add: w gradientUpdate_def Let_def)
qed

lemma gradientStep_zero_row:
  assumes "length weights = 2" and "length featureRow = 2"
  shows "gradientStep learningRate [(featureRow, label), ([0, 0], other)] weights
         = gradientUpdate learningRate weights (featureRow, label)"
  using length_gradientUpdate [OF assms, of learningRate label]
  by (simp add: gradientStep_def gradientUpdate_zero_row)

lemma funpow_zero_row:
  assumes "length featureRow = 2"
  shows "length weights = 2 \<Longrightarrow>
    (gradientStep learningRate [(featureRow, label), ([0, 0], other)] ^^ k) weights
      = ((\<lambda>ws. gradientUpdate learningRate ws (featureRow, label)) ^^ k) weights"
proof (induction k arbitrary: weights)
  case 0
  then show ?case by simp
next
  case (Suc k)
  have l: "length (gradientUpdate learningRate weights (featureRow, label)) = 2"
    using Suc.prems assms by (rule length_gradientUpdate)
  show ?case
    unfolding funpow_Suc_right o_apply gradientStep_zero_row [OF Suc.prems assms]
    using Suc.IH [OF l] .
qed

lemma logistic_quarter_differs:
  "gradientUpdate 0.3 [1 / 2, 1 / 2] ([1, 1], 0) \<noteq> gradientUpdate 0.3 [1 / 2, 1 / 2] ([1, 1], 1)"
proof -
  define p where "p = logistic (1 / 4)"
  have b: "0 < p" "p < 1" unfolding p_def using logistic_bounds [of "1 / 4"] by simp_all
  have pos: "0 < p * (1 - p)" using b by simp
  have eq: "(1 / 2 + c * (1 - p) * p * (1 - p) * 1) - (1 / 2 + c * (0 - p) * p * (1 - p) * 1)
      = c * (p * (1 - p))" for c :: real by (simp add: algebra_simps)
  have "0 < 0.3 * (p * (1 - p))" using pos by simp
  then have "1 / 2 + 0.3 * (0 - p) * p * (1 - p) * 1 \<noteq> 1 / 2 + 0.3 * (1 - p) * p * (1 - p) * 1"
    using eq [of "0.3"] by linarith
  then show ?thesis by (simp add: gradientUpdate_def Let_def p_def)
qed

text \<open>
  C6.  The trainer is given each row of features with the class of the record before it.
  For the training file with the records (score 1, class 1) and (score 0, class 0),
  \<open>train\<close> fills \<open>featureData\<close> from index 0 and \<open>labels\<close> from index 1: the row of
  the first record goes with the label 0, the row of the second record with the class of
  the first, and the class of the last record goes with a row of zeros.  The 100 steps
  with the learning rate 0.3 run on these pairs, from the initial weights 1/2 and 1/2.
  The first update adds \<open>0.3 * (0 - p) * p * (1 - p) * 1\<close> to each weight, with the
  prediction \<open>p = logistic (1 * 1/2 * 1 * 1/2)\<close>: it is made with the label 0 and
  differs from the update with the class 1 of the record.  The weights trained on a
  single record do not depend on its class.
\<close>

theorem labels_shifted_by_one:
  "ReadAll twoRecordsEnv 2 ''../dataset/training.csv''
     = Inr [[''FICO_score'', ''class''], [''1'', ''1''], [''0'', ''0'']]
   \<and> loadLoop twoRecordsEnv 0 [[''FICO_score'', ''class''], [''1'', ''1''], [''0'', ''0'']]
        (replicate 6 0) (replicate 3 0) 0 = Inr ([1, 1, 0, 1, 0, 0], [0, 1, 0])
   \<and> zip (matRows \<lparr>nrows = 3, ncols = 2, mdata = [1, 1, 0, 1, 0, 0]\<rparr>) [0, 1, 0 :: real]
       = [([1, 1], 0), ([0, 1], 1), ([0, 0], 0)]
   \<and> train_logistic twoRecordsEnv =
        Inr ((gradientStep 0.3 [([1, 1], 0), ([0, 1], 1), ([0, 0], 0)] ^^ 100) [1 / 2, 1 / 2] ! 0,
             (gradientStep 0.3 [([1, 1], 0), ([0, 1], 1), ([0, 0], 0)] ^^ 100) [1 / 2, 1 / 2] ! 1)
   \<and> gradientUpdate 0.3 [1 / 2, 1 / 2] ([1, 1], 0)
       = [1 / 2 + 0.3 * (0 - logistic (1 / 4)) * logistic (1 / 4) * (1 - logistic (1 / 4)) * 1,
          1 / 2 + 0.3 * (0 - logistic (1 / 4)) * logistic (1 / 4) * (1 - logistic (1 / 4)) * 1]
   \<and> gradientUpdate 0.3 [1 / 2, 1 / 2] ([1, 1], 0) \<noteq> gradientUpdate 0.3 [1 / 2, 1 / 2] ([1, 1], 1)
   \<and> train_logistic classOneEnv = train_logistic classZeroEnv
   \<and> (\<forall>x. logistic x = 1 / (1 + exp (- x)))"
proof -
  let ?hdr = "[''FICO_score'', ''class'']"
  have f2: "Float64 twoRecordsEnv 0 = 1 / 2" "Float64 twoRecordsEnv 1 = 1 / 2"
    by (simp_all add: twoRecordsEnv_def demoEnv_def)
  have f1: "Float64 classOneEnv 0 = 1 / 2" "Float64 classOneEnv 1 = 1 / 2"
    by (simp_all add: classOneEnv_def demoEnv_def)
  have f0: "Float64 classZeroEnv 0 = 1 / 2" "Float64 classZeroEnv 1 = 1 / 2"
    by (simp_all add: classZeroEnv_def demoEnv_def)
  have r2: "ReadAll twoRecordsEnv 2 ''../dataset/training.csv'' = Inr [?hdr, [''1'', ''1''], [''0'', ''0'']]"
    by (simp add: twoRecordsEnv_def)
  have o2: "Open twoRecordsEnv ''../dataset/training.csv'' = Inr ''../dataset/training.csv''"
    by (simp add: twoRecordsEnv_def demoEnv_def)
  have l2: "loadLoop twoRecordsEnv 0 [?hdr, [''1'', ''1''], [''0'', ''0'']]
        (replicate 6 0) (replicate 3 0) 0 = Inr ([1, 1, 0, 1, 0, 0], [0, 1, 0])"
    by (simp add: elemAt_def store_def twoRecordsEnv_def demoEnv_def demoParse_def numeral_eq_Suc)
  have l2': "loadLoop twoRecordsEnv 0 [?hdr, [''1'', ''1''], [''0'', ''0'']]
        (replicate (2 * length [?hdr, [''1'', ''1''], [''0'', ''0'']]) 0)
        (replicate (length [?hdr, [''1'', ''1''], [''0'', ''0'']]) 0) 0
        = Inr ([1, 1, 0, 1, 0, 0], [0, 1, 0])"
    by (simp add: elemAt_def store_def twoRecordsEnv_def demoEnv_def demoParse_def numeral_eq_Suc)
  have m2: "matRows \<lparr>nrows = 3, ncols = 2, mdata = [1, 1, 0, 1, 0, 0]\<rparr> = [[1, 1], [0, 1], [0, 0]]"
    by (simp add: matRows_def upt_rec numeral_eq_Suc)
  have z2: "zip (matRows \<lparr>nrows = 3, ncols = 2, mdata = [1, 1, 0, 1, 0, 0]\<rparr>) [0, 1, 0 :: real]
       = [([1, 1], 0), ([0, 1], 1), ([0, 0], 0)]"
    unfolding m2 by simp
  have len3: "length [?hdr, [''1'', ''1''], [''0'', ''0'']] = 3" by simp
  note th2 = conjunct1 [OF train_logistic_steps [OF o2 r2 l2'], unfolded Let_def len3 z2 f2]
  have t2: "train_logistic twoRecordsEnv =
        Inr ((gradientStep 0.3 [([1, 1], 0), ([0, 1], 1), ([0, 0], 0)] ^^ 100) [1 / 2, 1 / 2] ! 0,
             (gradientStep 0.3 [([1, 1], 0), ([0, 1], 1), ([0, 0], 0)] ^^ 100) [1 / 2, 1 / 2] ! 1)"
    by (rule conjunct2 [OF conjunct2 [OF th2]])
  have len2: "length [?hdr, [''1'', c]] = 2" for c :: string by simp
  have m1: "matRows \<lparr>nrows = 2, ncols = 2, mdata = [1, 1, 0, 0]\<rparr> = [[1, 1], [0, 0]]"
    by (simp add: matRows_def upt_rec numeral_eq_Suc)
  have o1: "Open classOneEnv ''../dataset/training.csv'' = Inr ''../dataset/training.csv''"
    by (simp add: classOneEnv_def demoEnv_def)
  have r1: "ReadAll classOneEnv 2 ''../dataset/training.csv'' = Inr [?hdr, [''1'', ''1'']]"
    by (simp add: classOneEnv_def)
  have l1: "loadLoop classOneEnv 0 [?hdr, [''1'', ''1'']]
        (replicate (2 * length [?hdr, [''1'', ''1'']]) 0) (replicate (length [?hdr, [''1'', ''1'']]) 0) 0
        = Inr ([1, 1, 0, 0], [0, 1])"
    by (simp add: elemAt_def store_def classOneEnv_def demoEnv_def demoParse_def numeral_eq_Suc)
  note th1 = conjunct1 [OF train_logistic_steps [OF o1 r1 l1], unfolded Let_def len2 m1 f1]
  have t1: "train_logistic classOneEnv =
        Inr ((gradientStep 0.3 (zip [[1, 1], [0, 0]] [0, 1]) ^^ 100) [1 / 2, 1 / 2] ! 0,
             (gradientStep 0.3 (zip [[1, 1], [0, 0]] [0, 1]) ^^ 100) [1 / 2, 1 / 2] ! 1)"
    by (rule conjunct2 [OF conjunct2 [OF th1]])
  have o0: "Open classZeroEnv ''../dataset/training.csv'' = Inr ''../dataset/training.csv''"
    by (simp add: classZeroEnv_def demoEnv_def)
  have r0: "ReadAll classZeroEnv 2 ''../dataset/training.csv'' = Inr [?hdr, [''1'', ''0'']]"
    by (simp add: classZeroEnv_def)
  have l0: "loadLoop classZeroEnv 0 [?hdr, [''1'', ''0'']]
        (replicate (2 * length [?hdr, [''1'', ''0'']]) 0) (replicate (length [?hdr, [''1'', ''0'']]) 0) 0
        = Inr ([1, 1, 0, 0], [0, 0])"
    by (simp add: elemAt_def store_def classZeroEnv_def demoEnv_def demoParse_def numeral_eq_Suc)
  note th0 = conjunct1 [OF train_logistic_steps [OF o0 r0 l0], unfolded Let_def len2 m1 f0]
  have t0: "train_logistic classZeroEnv =
        Inr ((gradientStep 0.3 (zip [[1, 1], [0, 0]] [0, 0]) ^^ 100) [1 / 2, 1 / 2] ! 0,
             (gradientStep 0.3 (zip [[1, 1], [0, 0]] [0, 0]) ^^ 100) [1 / 2, 1 / 2] ! 1)"
    by (rule conjunct2 [OF conjunct2 [OF th0]])
  have blind: "(gradientStep 0.3 [([1, 1], 0), ([0, 0], 1)] ^^ 100) [1 / 2, 1 / 2]
      = (gradientStep 0.3 [([1, 1], 0), ([0, 0], 0)] ^^ 100) [1 / 2, 1 / 2]"
    by (simp only: funpow_zero_row [of "[1, 1]" "[1 / 2, 1 / 2]", simplified])
  have same: "train_logistic classOneEnv = train_logistic classZeroEnv"
    unfolding t1 t0 using blind by simp
  have lg: "\<forall>x. logistic x = 1 / (1 + exp (- x))" by (simp add: logistic_def)
  have first: "gradientUpdate 0.3 [1 / 2, 1 / 2] ([1, 1], 0)
       = [1 / 2 + 0.3 * (0 - logistic (1 / 4)) * logistic (1 / 4) * (1 - logistic (1 / 4)) * 1,
          1 / 2 + 0.3 * (0 - logistic (1 / 4)) * logistic (1 / 4) * (1 - logistic (1 / 4)) * 1]"
    by (simp add: gradientUpdate_def Let_def)
  show ?thesis by (intro conjI r2 l2 z2 t2 first logistic_quarter_differs same lg)
qed

section \<open>Rows with a field that does not parse\<close>















section \<open>Profiling and splitting\<close>














section \<open>Facts of the concrete environments\<close>



























section \<open>Where a malformed row ends the run and where it does not\<close>




section \<open>Failures that end the run\<close>




section \<open>Seeding in the classification programs\<close>

text \<open>
  When the library draws from the generator of \<open>math/rand\<close> only, the decision-tree
  program prints the same for every state the generators start in.  The random-forest
  program does so when the library draws from the generator of \<open>golang.org/x/exp/rand\<close>
  only.
\<close>

lemma decision_tree_repeatable:
  assumes "\<And>data cls folds w w'. mathRand w = mathRand w' \<Longrightarrow>
      GenerateCrossFoldValidationConfusionMatrices G data cls folds w
      = GenerateCrossFoldValidationConfusionMatrices G data cls folds w'"
  shows "main_decision_tree G w = main_decision_tree G w'"
proof -
  have "GenerateCrossFoldValidationConfusionMatrices G data cls folds (w\<lparr>mathRand := s\<rparr>)
      = GenerateCrossFoldValidationConfusionMatrices G data cls folds (w'\<lparr>mathRand := s\<rparr>)"
    for data cls folds s
    by (rule assms) simp
  then show ?thesis by (simp add: main_decision_tree_def Let_def split: sum.splits)
qed

lemma random_forest_repeatable:
  assumes "\<And>data cls folds w w'. expRand w = expRand w' \<Longrightarrow>
      GenerateCrossFoldValidationConfusionMatrices G data cls folds w
      = GenerateCrossFoldValidationConfusionMatrices G data cls folds w'"
  shows "main_random_forest G w = main_random_forest G w'"
proof -
  have "GenerateCrossFoldValidationConfusionMatrices G data cls folds (w\<lparr>expRand := s\<rparr>)
      = GenerateCrossFoldValidationConfusionMatrices G data cls folds (w'\<lparr>expRand := s\<rparr>)"
    for data cls folds s
    by (rule assms) simp
  then show ?thesis by (simp add: main_random_forest_def Let_def split: sum.splits)
qed

text \<open>
  C9.  With a library that draws from \<open>math/rand\<close>, two runs of the random-forest
  program on the same dataset, started with different states of that generator, print
  different accuracies: the program seeds the generator of the other package.  The
  decision-tree program prints the same accuracy in both runs.
\<close>

theorem random_forest_seeds_other_generator:
  "main_random_forest demoGolearn \<lparr>mathRand = 1, expRand = 7\<rparr> = Inr (0.96, 0)
   \<and> main_random_forest demoGolearn \<lparr>mathRand = 2, expRand = 7\<rparr> = Inr (0.9, 0)
   \<and> main_decision_tree demoGolearn \<lparr>mathRand = 1, expRand = 7\<rparr> = Inr (0.9, 0)
   \<and> main_decision_tree demoGolearn \<lparr>mathRand = 2, expRand = 7\<rparr> = Inr (0.9, 0)"
  by (simp add: main_random_forest_def main_decision_tree_def demoGolearn_def)

end
